theory Spec2Isabelle
  imports Main
begin

section \<open>django-omnitenant: routing, schema names, configuration and batch migration\<close>

text \<open>
  A shallow embedding of the parts of django-omnitenant that decide where data goes:
  \<^verbatim>\<open>routers.py\<close> (\<^verbatim>\<open>TenantRouter\<close>), \<^verbatim>\<open>utils.py\<close> (\<^verbatim>\<open>get_custom_apps\<close>,
  \<^verbatim>\<open>convert_to_valid_pgsql_schema_name\<close>, \<^verbatim>\<open>get_tenant_backend\<close>),
  \<^verbatim>\<open>backends/database_backend.py\<close> (\<^verbatim>\<open>get_alias_and_config\<close>, the create and drop
  statements), \<^verbatim>\<open>management/commands/migratetenants.py\<close> (\<^verbatim>\<open>Command.handle\<close>) and
  \<^verbatim>\<open>conf.py\<close> (\<^verbatim>\<open>_WrappedSettings\<close>).

  Python strings are modelled as \<^typ>\<open>string\<close>; exceptions are values of the type
  \<open>error\<close>; \<^verbatim>\<open>None\<close> is \<^term>\<open>None\<close> or the constructor \<open>PNone\<close>.
\<close>

subsection \<open>Python values and strings\<close>

text \<open>The values a configuration dictionary holds. A \<^verbatim>\<open>dict\<close> is an association list
  whose keys are distinct; \<^term>\<open>map_of\<close> is \<^verbatim>\<open>dict.get\<close>.\<close>

datatype pyval =
    PNone
  | PBool bool
  | PInt int
  | PStr string
  | PDict "(string \<times> pyval) list"

type_synonym pydict = "(string \<times> pyval) list"

text \<open>Python truthiness, as \<^verbatim>\<open>x or y\<close> and \<^verbatim>\<open>if x\<close> test it.\<close>

fun truthy :: "pyval \<Rightarrow> bool" where
  "truthy PNone = False"
| "truthy (PBool b) = b"
| "truthy (PInt i) = (i \<noteq> 0)"
| "truthy (PStr s) = (s \<noteq> [])"
| "truthy (PDict d) = (d \<noteq> [])"

text \<open>\<^verbatim>\<open>a or b\<close>: the first operand when it is truthy, else the second.\<close>

definition py_or :: "pyval \<Rightarrow> pyval \<Rightarrow> pyval" where
  "py_or a b = (if truthy a then a else b)"

text \<open>\<^verbatim>\<open>d.get(k)\<close> and \<^verbatim>\<open>d.get(k, default)\<close> on a plain dictionary.\<close>

definition dict_get :: "pydict \<Rightarrow> string \<Rightarrow> pyval" where
  "dict_get d k = (case map_of d k of None \<Rightarrow> PNone | Some v \<Rightarrow> v)"

definition dict_get_default :: "pydict \<Rightarrow> string \<Rightarrow> pyval \<Rightarrow> pyval" where
  "dict_get_default d k dflt = (case map_of d k of None \<Rightarrow> dflt | Some v \<Rightarrow> v)"

text \<open>\<^verbatim>\<open>s.startswith(p)\<close> and \<^verbatim>\<open>sub in s\<close> on strings.\<close>

definition startswith :: "string \<Rightarrow> string \<Rightarrow> bool" where
  "startswith s p = (take (length p) s = p)"

fun str_contains :: "string \<Rightarrow> string \<Rightarrow> bool" where
  "str_contains sub [] = (sub = [])"
| "str_contains sub (c # cs) = (startswith (c # cs) sub \<or> str_contains sub cs)"

subsection \<open>Tenants, models, applications and settings\<close>

text \<open>\<^verbatim>\<open>utils.TenantScope\<close>.\<close>

datatype TenantScope = MASTER | TENANT | SHARED

text \<open>Modelled from the spec: \<^verbatim>\<open>BaseTenant.IsolationType\<close> and \<^verbatim>\<open>BaseTenant\<close>
  (\<^verbatim>\<open>models.py\<close> is not among the sources). The spec gives the tenant a \<^verbatim>\<open>tenant_id\<close>,
  an \<^verbatim>\<open>isolation_type\<close> of DATABASE, SCHEMA or TABLE, and a configuration map.\<close>

datatype IsolationType = DATABASE | SCHEMA | TABLE

record BaseTenant =
  tenant_id :: string
  isolation_type :: IsolationType
  config :: pydict

text \<open>The value of a \<^verbatim>\<open>tenant_scope\<close> attribute: a member of \<^verbatim>\<open>TenantScope\<close>, or any
  other Python object.\<close>

datatype scope_attr = Scope TenantScope | NotAScope

text \<open>A model class: \<^verbatim>\<open>model._meta.app_label\<close>, its name, and its \<^verbatim>\<open>tenant_scope\<close>
  attribute when it has one.\<close>

record Model =
  app_label :: string
  model_name :: string
  model_tenant_scope :: "scope_attr option"

text \<open>An \<^verbatim>\<open>AppConfig\<close>: \<^verbatim>\<open>label\<close>, \<^verbatim>\<open>name\<close>, \<^verbatim>\<open>path\<close> and its \<^verbatim>\<open>tenant_scope\<close>
  attribute when it has one.\<close>

record AppConfig =
  label :: string
  name :: string
  path :: string
  app_tenant_scope :: "scope_attr option"

text \<open>The \<^verbatim>\<open>settings_dict\<close> of a connection, as far as the router reads it: the
  \<^verbatim>\<open>OPTIONS\<close> dictionary (empty when the key is absent).\<close>

record settings_dict =
  OPTIONS :: "(string \<times> string) list"

text \<open>What the router reads of the process: the settings (\<^verbatim>\<open>CUSTOM_APPS\<close> when the
  Django settings have the attribute, \<^verbatim>\<open>BASE_DIR\<close>, \<^verbatim>\<open>MASTER_DB_ALIAS\<close>,
  \<^verbatim>\<open>DEFAULT_SCHEMA_NAME\<close>), the application registry (\<^verbatim>\<open>apps\<close>) and the
  connection registry (\<^verbatim>\<open>connections\<close>).\<close>

record env =
  CUSTOM_APPS :: "string list option"
  BASE_DIR :: string
  MASTER_DB_ALIAS :: string
  DEFAULT_SCHEMA_NAME :: string
  app_configs :: "AppConfig list"
  models :: "Model list"
  connections :: "(string \<times> settings_dict) list"

datatype error =
    LookupError
  | ConnectionDoesNotExist
  | ValueError
  | TypeError
  | AttributeError
  | ImproperlyConfigured

text \<open>Modelled from the spec: \<^verbatim>\<open>TenantContext\<close> (\<^verbatim>\<open>tenant_context.py\<close> is not among the
  sources). The spec's context stack holds (tenant, alias) entries; \<^verbatim>\<open>current_tenant\<close>
  and \<^verbatim>\<open>current_alias\<close> read the top of the stack and give the no-tenant sentinel
  \<^verbatim>\<open>None\<close> when it is empty. The top of the stack is the last element.\<close>

type_synonym TenantContext = "(BaseTenant \<times> string) list"

definition get_tenant :: "TenantContext \<Rightarrow> BaseTenant option" where
  "get_tenant ctx = (if ctx = [] then None else Some (fst (last ctx)))"

definition get_db_alias :: "TenantContext \<Rightarrow> string option" where
  "get_db_alias ctx = (if ctx = [] then None else Some (snd (last ctx)))"

text \<open>\<^verbatim>\<open>apps.get_app_config(label)\<close> and \<^verbatim>\<open>apps.get_model(app_label, model_name)\<close>:
  the registered entry, or \<^verbatim>\<open>LookupError\<close>.\<close>

definition get_app_config :: "env \<Rightarrow> string \<Rightarrow> error + AppConfig" where
  "get_app_config e l =
     (case find (\<lambda>ac. label ac = l) (app_configs e) of
        None \<Rightarrow> Inl LookupError
      | Some ac \<Rightarrow> Inr ac)"

definition get_model :: "env \<Rightarrow> string \<Rightarrow> string \<Rightarrow> error + Model" where
  "get_model e al mn =
     (case find (\<lambda>m. app_label m = al \<and> model_name m = mn) (models e) of
        None \<Rightarrow> Inl LookupError
      | Some m \<Rightarrow> Inr m)"

text \<open>\<^verbatim>\<open>utils.get_custom_apps\<close>: the configured list when there is one, else the names
  of the installed applications whose path starts with \<^verbatim>\<open>BASE_DIR\<close>.\<close>

definition get_custom_apps :: "env \<Rightarrow> string list" where
  "get_custom_apps e =
     (case CUSTOM_APPS e of
        Some apps \<Rightarrow> apps
      | None \<Rightarrow> map name (filter (\<lambda>ac. startswith (path ac) (BASE_DIR e)) (app_configs e)))"

subsection \<open>The router\<close>

text \<open>\<^verbatim>\<open>TenantRouter._get_scope\<close>: the model's attribute when it is a \<^verbatim>\<open>TenantScope\<close>,
  else the attribute of its application (whatever it holds), else TENANT.\<close>

definition get_scope :: "env \<Rightarrow> Model \<Rightarrow> scope_attr" where
  "get_scope e m =
     (if app_label m \<notin> set (get_custom_apps e) then Scope TENANT
      else case model_tenant_scope m of
        Some (Scope s) \<Rightarrow> Scope s
      | _ \<Rightarrow>
        (case get_app_config e (app_label m) of
           Inr ac \<Rightarrow> (case app_tenant_scope ac of None \<Rightarrow> Scope TENANT | Some a \<Rightarrow> a)
         | Inl _ \<Rightarrow> Scope TENANT))"

text \<open>\<^verbatim>\<open>TenantRouter.db_for_read\<close>. \<^verbatim>\<open>get_db_alias() or MASTER_DB_ALIAS\<close> takes the master
  alias when the active alias is \<^verbatim>\<open>None\<close> or the empty string.\<close>

definition db_for_read :: "env \<Rightarrow> TenantContext \<Rightarrow> Model \<Rightarrow> string option" where
  "db_for_read e ctx m =
     (let scope = get_scope e m in
      if scope = Scope MASTER then Some (MASTER_DB_ALIAS e)
      else if scope = Scope SHARED then
        (case get_db_alias ctx of
           None \<Rightarrow> Some (MASTER_DB_ALIAS e)
         | Some a \<Rightarrow> if a \<noteq> [] then Some a else Some (MASTER_DB_ALIAS e))
      else get_db_alias ctx)"

definition db_for_write :: "env \<Rightarrow> TenantContext \<Rightarrow> Model \<Rightarrow> string option" where
  "db_for_write e ctx m = db_for_read e ctx m"

definition allow_relation :: "env \<Rightarrow> TenantContext \<Rightarrow> Model \<Rightarrow> Model \<Rightarrow> bool" where
  "allow_relation e ctx obj1 obj2 = (db_for_read e ctx obj1 = db_for_read e ctx obj2)"

text \<open>The search path string of a connection,
  \<^verbatim>\<open>settings_dict.get("OPTIONS", {}).get("options", "")\<close>, and the test the router makes
  on it: the default schema name occurs in it, or no search path is set at all.\<close>

definition search_path :: "settings_dict \<Rightarrow> string" where
  "search_path sd = (case map_of (OPTIONS sd) ''options'' of None \<Rightarrow> [] | Some s \<Rightarrow> s)"

definition is_public_schema :: "env \<Rightarrow> settings_dict \<Rightarrow> bool" where
  "is_public_schema e sd =
     (str_contains (DEFAULT_SCHEMA_NAME e) (search_path sd)
      \<or> \<not> str_contains ''search_path'' (search_path sd))"

text \<open>The schema a connection has active, read from its options independently of the
  router's test: the first entry of the value of \<^verbatim>\<open>search_path=\<close> (the schema
  \<^verbatim>\<open>current_schema()\<close> reports, which \<^verbatim>\<open>utils.get_active_schema_name\<close> calls the active
  schema), or \<^term>\<open>None\<close> when the options set no search path. The default schema is
  active when no search path is set or its first entry is \<^verbatim>\<open>DEFAULT_SCHEMA_NAME\<close>.\<close>

fun text_after :: "string \<Rightarrow> string \<Rightarrow> string option" where
  "text_after needle [] = (if needle = [] then Some [] else None)"
| "text_after needle (c # cs) =
     (if startswith (c # cs) needle then Some (drop (length needle) (c # cs))
      else text_after needle cs)"

definition selected_schema :: "settings_dict \<Rightarrow> string option" where
  "selected_schema sd =
     map_option (takeWhile (\<lambda>c. c \<noteq> CHR '','' \<and> c \<noteq> CHR '' ''))
       (text_after ''search_path='' (search_path sd))"

definition default_schema_active :: "env \<Rightarrow> settings_dict \<Rightarrow> bool" where
  "default_schema_active e sd =
     (case selected_schema sd of None \<Rightarrow> True | Some s \<Rightarrow> s = DEFAULT_SCHEMA_NAME e)"

text \<open>\<^verbatim>\<open>tenant and tenant.isolation_type == BaseTenant.IsolationType.SCHEMA\<close>, read as a
  condition.\<close>

definition is_schema_iso :: "TenantContext \<Rightarrow> bool" where
  "is_schema_iso ctx =
     (case get_tenant ctx of None \<Rightarrow> False | Some t \<Rightarrow> isolation_type t = SCHEMA)"

text \<open>The routing matrix at the end of \<^verbatim>\<open>allow_migrate\<close>, on the scope found and the
  two flags computed.\<close>

definition routing_matrix :: "scope_attr \<Rightarrow> bool \<Rightarrow> bool \<Rightarrow> bool \<Rightarrow> bool" where
  "routing_matrix scope is_master_db is_public schema_iso =
     (if scope = Scope MASTER then is_master_db \<and> is_public
      else if scope = Scope TENANT then
        (if schema_iso then is_master_db \<and> \<not> is_public else \<not> is_master_db \<and> is_public)
      else if scope = Scope SHARED then
        (let is_master_loc = is_master_db \<and> is_public;
             is_tenant_loc =
               (if schema_iso then is_master_db \<and> \<not> is_public else \<not> is_master_db)
         in is_master_loc \<or> is_tenant_loc)
      else False)"

text \<open>Step 2 of \<^verbatim>\<open>allow_migrate\<close>, "Identify the Model Scope": with a model name, the
  scope of the model, or \<^verbatim>\<open>None\<close> (\<^term>\<open>Inr None\<close>) when the lookup fails; with a
  \<^verbatim>\<open>model_name\<close> that is \<^verbatim>\<open>None\<close> or empty, the attribute of the application, whose
  lookup is outside any \<^verbatim>\<open>try\<close>.\<close>

definition identify_scope :: "env \<Rightarrow> string \<Rightarrow> string option \<Rightarrow> error + scope_attr option" where
  "identify_scope e al mn =
     (if mn \<noteq> None \<and> mn \<noteq> Some [] then
        (case get_model e al (the mn) of
           Inr m \<Rightarrow> Inr (Some (get_scope e m))
         | Inl _ \<Rightarrow> Inr None)
      else
        (case get_app_config e al of
           Inl err \<Rightarrow> Inl err
         | Inr ac \<Rightarrow>
            Inr (Some (case app_tenant_scope ac of None \<Rightarrow> Scope TENANT | Some a \<Rightarrow> a))))"

text \<open>\<^verbatim>\<open>TenantRouter.allow_migrate\<close>. The result is \<^verbatim>\<open>True\<close>, \<^verbatim>\<open>False\<close> or \<^verbatim>\<open>None\<close>
  (\<^term>\<open>Inr None\<close>); \<^verbatim>\<open>connections[db]\<close> raises for an alias that is not
  registered.\<close>

definition allow_migrate ::
  "env \<Rightarrow> TenantContext \<Rightarrow> string \<Rightarrow> string \<Rightarrow> string option \<Rightarrow> error + bool option" where
  "allow_migrate e ctx db al mn =
     (if al \<notin> set (get_custom_apps e) then Inr (Some True)
      else
        case identify_scope e al mn of
          Inl err \<Rightarrow> Inl err
        | Inr None \<Rightarrow> Inr None
        | Inr (Some scope) \<Rightarrow>
           (let is_master_db = (db = MASTER_DB_ALIAS e) in
            case map_of (connections e) db of
              None \<Rightarrow> Inl ConnectionDoesNotExist
            | Some sd \<Rightarrow>
               Inr (Some (routing_matrix scope is_master_db (is_public_schema e sd)
                            (is_schema_iso ctx)))))"

subsection \<open>Schema names\<close>

text \<open>\<^verbatim>\<open>str.lower()\<close> on the letters A to Z; every other character is left as it is
  (a character outside ASCII is then replaced by the substitution below).\<close>

definition lower_char :: "char \<Rightarrow> char" where
  "lower_char c =
     (if 65 \<le> (of_char c :: nat) \<and> (of_char c :: nat) \<le> 90
      then char_of ((of_char c :: nat) + 32) else c)"

definition lower :: "string \<Rightarrow> string" where
  "lower s = map lower_char s"

text \<open>The character class \<^verbatim>\<open>[a-zA-Z0-9_]\<close> and the substitution
  \<^verbatim>\<open>re.sub(r"[^a-zA-Z0-9_]", "_", s)\<close>.\<close>

definition is_word_char :: "char \<Rightarrow> bool" where
  "is_word_char c =
     (let n = (of_char c :: nat) in
      (97 \<le> n \<and> n \<le> 122) \<or> (65 \<le> n \<and> n \<le> 90) \<or> (48 \<le> n \<and> n \<le> 57) \<or> n = 95)"

definition sub_invalid :: "string \<Rightarrow> string" where
  "sub_invalid s = map (\<lambda>c. if is_word_char c then c else CHR ''_'') s"

text \<open>\<^verbatim>\<open>utils.convert_to_valid_pgsql_schema_name\<close>. The f-string
  \<^verbatim>\<open>f"x_{name[3:]}"\<close> is never empty, so the \<^verbatim>\<open>or "x"\<close> after it never applies; it is
  kept as the source has it.\<close>

definition convert_to_valid_pgsql_schema_name :: "string \<Rightarrow> string" where
  "convert_to_valid_pgsql_schema_name name0 =
     (let name1 = sub_invalid (lower name0);
          name2 = take 63 name1;
          name3 = (if startswith name2 ''pg_''
                   then (if ''x_'' @ drop 3 name2 \<noteq> [] then ''x_'' @ drop 3 name2 else ''x'')
                   else name2);
          name4 = (if name3 = [] then ''default_schema'' else name3)
      in name4)"

subsection \<open>Database configuration of a tenant\<close>

text \<open>\<^verbatim>\<open>requests.structures.CaseInsensitiveDict(data)\<close>: the entries are stored under the
  lowered key, a later entry replacing an earlier one; \<^verbatim>\<open>get\<close> and \<^verbatim>\<open>in\<close> lower the
  key asked for.\<close>

definition ci_store :: "pydict \<Rightarrow> string \<Rightarrow> pyval option" where
  "ci_store d = map_of (rev (map (\<lambda>(k, v). (lower k, v)) d))"

definition ci_get :: "pydict \<Rightarrow> string \<Rightarrow> pyval" where
  "ci_get d k = (case ci_store d (lower k) of None \<Rightarrow> PNone | Some v \<Rightarrow> v)"

definition ci_contains :: "pydict \<Rightarrow> string \<Rightarrow> bool" where
  "ci_contains d k = (ci_store d (lower k) \<noteq> None)"

text \<open>\<^verbatim>\<open>d[k] = v\<close> on a plain dictionary: the entry is replaced in place, or added at the
  end.\<close>

definition dict_set :: "pydict \<Rightarrow> string \<Rightarrow> pyval \<Rightarrow> pydict" where
  "dict_set d k v =
     (if k \<in> set (map fst d) then map (\<lambda>(k', v'). if k' = k then (k', v) else (k', v')) d
      else d @ [(k, v)])"

text \<open>The settings \<^verbatim>\<open>get_alias_and_config\<close> reads: \<^verbatim>\<open>DATABASES\<close>, the master alias
  and \<^verbatim>\<open>TIME_ZONE\<close>.\<close>

record db_settings =
  DATABASES :: "(string \<times> pydict) list"
  MASTER_ALIAS :: string
  TIME_ZONE :: string

text \<open>\<^verbatim>\<open>CaseInsensitiveDict(tenant.config.get("db_config", {}))\<close>: a dictionary is taken
  over, \<^verbatim>\<open>None\<close> and the empty string give the empty dictionary, and any other value
  makes the constructor raise.\<close>

definition tenant_db_config :: "BaseTenant \<Rightarrow> error + pydict" where
  "tenant_db_config tenant =
     (case map_of (config tenant) ''db_config'' of
        None \<Rightarrow> Inr []
      | Some (PDict d) \<Rightarrow> Inr d
      | Some PNone \<Rightarrow> Inr []
      | Some (PStr s) \<Rightarrow> (if s = [] then Inr [] else Inl ValueError)
      | Some _ \<Rightarrow> Inl TypeError)"

text \<open>The master's entry of \<^verbatim>\<open>DATABASES\<close>,
  \<^verbatim>\<open>settings.DATABASES.get(settings.MASTER_DB_ALIAS, {}).copy()\<close>.\<close>

definition base_config :: "db_settings \<Rightarrow> pydict" where
  "base_config st =
     (case map_of (DATABASES st) (MASTER_ALIAS st) of None \<Rightarrow> [] | Some c \<Rightarrow> c)"

text \<open>The dictionary \<^verbatim>\<open>resolved_config\<close> as \<^verbatim>\<open>get_alias_and_config\<close> writes it: the
  first eight fields fall back with \<^verbatim>\<open>or\<close>, the last five test
  \<^verbatim>\<open>in db_config\<close>.\<close>

definition resolved_config :: "db_settings \<Rightarrow> pydict \<Rightarrow> pydict" where
  "resolved_config st db_config =
     [(''ENGINE'', py_or (ci_get db_config ''ENGINE'')
         (dict_get_default (base_config st) ''ENGINE''
            (PStr ''django_omnitenant.backends.postgresql''))),
      (''NAME'', py_or (ci_get db_config ''NAME'') (dict_get (base_config st) ''NAME'')),
      (''USER'', py_or (ci_get db_config ''USER'') (dict_get (base_config st) ''USER'')),
      (''PASSWORD'',
         py_or (ci_get db_config ''PASSWORD'') (dict_get (base_config st) ''PASSWORD'')),
      (''HOST'', py_or (ci_get db_config ''HOST'') (dict_get (base_config st) ''HOST'')),
      (''PORT'', py_or (ci_get db_config ''PORT'') (dict_get (base_config st) ''PORT'')),
      (''OPTIONS'', py_or (ci_get db_config ''OPTIONS'')
         (dict_get_default (base_config st) ''OPTIONS'' (PDict []))),
      (''TIME_ZONE'', py_or (ci_get db_config ''TIME_ZONE'')
         (dict_get_default (base_config st) ''TIME_ZONE'' (PStr (TIME_ZONE st)))),
      (''ATOMIC_REQUESTS'',
         if ci_contains db_config ''ATOMIC_REQUESTS''
         then ci_get db_config ''ATOMIC_REQUESTS''
         else dict_get_default (base_config st) ''ATOMIC_REQUESTS'' (PBool False)),
      (''AUTOCOMMIT'',
         if ci_contains db_config ''AUTOCOMMIT''
         then ci_get db_config ''AUTOCOMMIT''
         else dict_get_default (base_config st) ''AUTOCOMMIT'' (PBool True)),
      (''CONN_MAX_AGE'',
         if ci_contains db_config ''CONN_MAX_AGE''
         then ci_get db_config ''CONN_MAX_AGE''
         else dict_get_default (base_config st) ''CONN_MAX_AGE'' (PInt 0)),
      (''CONN_HEALTH_CHECKS'',
         if ci_contains db_config ''CONN_HEALTH_CHECKS''
         then ci_get db_config ''CONN_HEALTH_CHECKS''
         else dict_get_default (base_config st) ''CONN_HEALTH_CHECKS'' (PBool False)),
      (''TEST'',
         if ci_contains db_config ''TEST''
         then ci_get db_config ''TEST''
         else dict_get_default (base_config st) ''TEST'' (PDict []))]"

text \<open>\<^verbatim>\<open>DatabaseTenantBackend.get_alias_and_config\<close>: the alias is
  \<^verbatim>\<open>ALIAS or NAME or MASTER_DB_ALIAS\<close>; the \<^verbatim>\<open>TEST\<close> entry must be a dictionary
  (\<^verbatim>\<open>.get\<close> on anything else raises) and receives the resolved \<^verbatim>\<open>NAME\<close> when it has
  no truthy \<^verbatim>\<open>NAME\<close> of its own. The result is the returned pair; that the \<^verbatim>\<open>TEST\<close>
  dictionary of the master entry is the same object and is written in place is not
  part of it.\<close>

definition get_alias_and_config :: "db_settings \<Rightarrow> BaseTenant \<Rightarrow> error + (pyval \<times> pydict)" where
  "get_alias_and_config st tenant =
     (case tenant_db_config tenant of
        Inl err \<Rightarrow> Inl err
      | Inr db_config \<Rightarrow>
         (let db_alias = py_or (ci_get db_config ''ALIAS'')
                           (py_or (ci_get db_config ''NAME'') (PStr (MASTER_ALIAS st)));
              resolved = resolved_config st db_config
          in case dict_get resolved ''TEST'' of
               PDict t \<Rightarrow>
                 if \<not> truthy (dict_get t ''NAME'')
                 then Inr (db_alias,
                        dict_set resolved ''TEST''
                          (PDict (dict_set t ''NAME'' (dict_get resolved ''NAME''))))
                 else Inr (db_alias, resolved)
             | _ \<Rightarrow> Inl AttributeError))"

text \<open>One field of the configuration \<^verbatim>\<open>get_alias_and_config\<close> returns.\<close>

definition resolved_field :: "db_settings \<Rightarrow> BaseTenant \<Rightarrow> string \<Rightarrow> error + pyval" where
  "resolved_field st tenant k =
     (case get_alias_and_config st tenant of
        Inl err \<Rightarrow> Inl err
      | Inr (db_alias, cfg) \<Rightarrow> Inr (dict_get cfg k))"

text \<open>The fields that fall back with \<^verbatim>\<open>or\<close>, the fields that test \<^verbatim>\<open>in db_config\<close>,
  and the default the source gives each field when neither the tenant nor the master
  has it (\<^verbatim>\<open>None\<close> where \<^verbatim>\<open>base_config.get\<close> has no second argument).\<close>

definition or_fields :: "string list" where
  "or_fields = [''ENGINE'', ''NAME'', ''USER'', ''PASSWORD'', ''HOST'', ''PORT'', ''OPTIONS'',
                ''TIME_ZONE'']"

definition in_fields :: "string list" where
  "in_fields = [''ATOMIC_REQUESTS'', ''AUTOCOMMIT'', ''CONN_MAX_AGE'', ''CONN_HEALTH_CHECKS'']"

definition hard_default :: "db_settings \<Rightarrow> string \<Rightarrow> pyval" where
  "hard_default st k =
     (if k = ''ENGINE'' then PStr ''django_omnitenant.backends.postgresql''
      else if k = ''OPTIONS'' then PDict []
      else if k = ''TIME_ZONE'' then PStr (TIME_ZONE st)
      else if k = ''ATOMIC_REQUESTS'' then PBool False
      else if k = ''AUTOCOMMIT'' then PBool True
      else if k = ''CONN_MAX_AGE'' then PInt 0
      else if k = ''CONN_HEALTH_CHECKS'' then PBool False
      else if k = ''TEST'' then PDict []
      else PNone)"

subsection \<open>Create and drop statements\<close>

text \<open>The double quote character.\<close>

definition dquote :: char where
  "dquote = CHR 0x22"

text \<open>\<^verbatim>\<open>sql.Identifier(name)\<close> as psycopg renders it: the name between double quotes,
  every double quote inside it doubled.\<close>

definition sql_Identifier :: "string \<Rightarrow> string" where
  "sql_Identifier nm = dquote # concat (map (\<lambda>c. if c = dquote then [dquote, dquote] else [c]) nm) @ [dquote]"

text \<open>The statement \<^verbatim>\<open>_create_database\<close> executes,
  \<^verbatim>\<open>sql.SQL("CREATE DATABASE {}").format(sql.Identifier(db_name))\<close>, and the one
  \<^verbatim>\<open>_drop_database\<close> executes, the f-string \<^verbatim>\<open>f'DROP DATABASE IF EXISTS "{db_name}"'\<close>.\<close>

definition create_database_statement :: "string \<Rightarrow> string" where
  "create_database_statement db_name = ''CREATE DATABASE '' @ sql_Identifier db_name"

definition drop_database_statement :: "string \<Rightarrow> string" where
  "drop_database_statement db_name = ''DROP DATABASE IF EXISTS '' @ [dquote] @ db_name @ [dquote]"

text \<open>How a server reads a quoted identifier: after the opening quote, up to the first
  double quote that is not doubled; a doubled quote stands for one quote character. The
  result is the identifier and the text that follows it, or \<^term>\<open>None\<close> when the
  identifier is not closed.\<close>

fun scan_quoted :: "string \<Rightarrow> (string \<times> string) option" where
  "scan_quoted [] = None"
| "scan_quoted [c] = (if c = dquote then Some ([], []) else None)"
| "scan_quoted (c # d # ds) =
     (if c = dquote then
        (if d = dquote then map_option (\<lambda>(i, r). (dquote # i, r)) (scan_quoted ds)
         else Some ([], d # ds))
      else map_option (\<lambda>(i, r). (c # i, r)) (scan_quoted (d # ds)))"

definition read_quoted_identifier :: "string \<Rightarrow> (string \<times> string) option" where
  "read_quoted_identifier s =
     (case s of [] \<Rightarrow> None | c # cs \<Rightarrow> if c = dquote then scan_quoted cs else None)"

text \<open>A statement made of a keyword prefix and a destination names exactly the database
  \<open>db_name\<close> when the text after the prefix is one quoted identifier that reads back as
  \<open>db_name\<close>, with nothing after it.\<close>

definition names_only :: "string \<Rightarrow> string \<Rightarrow> string \<Rightarrow> bool" where
  "names_only prefix stmt db_name =
     (startswith stmt prefix
      \<and> read_quoted_identifier (drop (length prefix) stmt) = Some (db_name, []))"

subsection \<open>Migrating every tenant\<close>




















subsection \<open>The settings wrapper\<close>

text \<open>The three shapes of a \<^verbatim>\<open>cached_property\<close> of \<^verbatim>\<open>_WrappedSettings\<close>:
  \<^verbatim>\<open>getattr(django_settings, key, default)\<close>,
  \<^verbatim>\<open>self.OMNITENANT_CONFIG.get(key, default)\<close>, and the required entries, which raise
  \<^verbatim>\<open>ImproperlyConfigured\<close> when the configuration has no truthy value.\<close>

datatype cached_prop =
    FromDjango string pyval
  | FromConfig string pyval
  | RequiredFromConfig string

text \<open>The wrapper: its instance dictionary \<^verbatim>\<open>self.__dict__\<close>, where
  \<^verbatim>\<open>cached_property\<close> stores what it computed, and the Django settings object behind
  it.\<close>

record wrapped =
  inst_dict :: "string \<Rightarrow> pyval option"
  django_settings :: "string \<Rightarrow> pyval option"

text \<open>\<^verbatim>\<open>_WrappedSettings.__setattr__\<close>: \<^verbatim>\<open>ValueError\<close> for a key of the instance
  dictionary, else \<^verbatim>\<open>setattr(django_settings, key, value)\<close>.\<close>

definition wrapped_setattr :: "string \<Rightarrow> pyval \<Rightarrow> wrapped \<Rightarrow> (error + unit) \<times> wrapped" where
  "wrapped_setattr key v w =
     (if key \<in> dom (inst_dict w) then (Inl ValueError, w)
      else (Inr (), w\<lparr>django_settings := (django_settings w)(key \<mapsto> v)\<rparr>))"

text \<open>Reading \<^verbatim>\<open>self.OMNITENANT_CONFIG\<close>: the cached value, or
  \<^verbatim>\<open>getattr(django_settings, "OMNITENANT_CONFIG", {})\<close>, which is then cached.\<close>

definition read_OMNITENANT_CONFIG :: "wrapped \<Rightarrow> pyval \<times> wrapped" where
  "read_OMNITENANT_CONFIG w =
     (case inst_dict w ''OMNITENANT_CONFIG'' of
        Some v \<Rightarrow> (v, w)
      | None \<Rightarrow>
         (let v = (case django_settings w ''OMNITENANT_CONFIG'' of
                     None \<Rightarrow> PDict [] | Some c \<Rightarrow> c)
          in (v, w\<lparr>inst_dict := (inst_dict w)(''OMNITENANT_CONFIG'' \<mapsto> v)\<rparr>)))"

text \<open>Evaluating the body of a cached property. A configuration that is not a
  dictionary has no \<^verbatim>\<open>get\<close>.\<close>

definition compute_prop :: "cached_prop \<Rightarrow> wrapped \<Rightarrow> (error + pyval) \<times> wrapped" where
  "compute_prop p w =
     (case p of
        FromDjango key dflt \<Rightarrow>
          ((case django_settings w key of None \<Rightarrow> Inr dflt | Some v \<Rightarrow> Inr v), w)
      | FromConfig key dflt \<Rightarrow>
          (let (c, w') = read_OMNITENANT_CONFIG w in
           case c of
             PDict d \<Rightarrow> (Inr (dict_get_default d key dflt), w')
           | _ \<Rightarrow> (Inl AttributeError, w'))
      | RequiredFromConfig key \<Rightarrow>
          (let (c, w') = read_OMNITENANT_CONFIG w in
           case c of
             PDict d \<Rightarrow>
               (if truthy (dict_get d key) then (Inr (dict_get d key), w')
                else (Inl ImproperlyConfigured, w'))
           | _ \<Rightarrow> (Inl AttributeError, w')))"

text \<open>\<^verbatim>\<open>_WrappedSettings.__getattr__\<close>: the attribute of the Django settings, or
  \<^verbatim>\<open>AttributeError\<close>.\<close>

definition django_getattr :: "string \<Rightarrow> wrapped \<Rightarrow> (error + pyval) \<times> wrapped" where
  "django_getattr item w =
     (case django_settings w item of
        None \<Rightarrow> (Inl AttributeError, w)
      | Some v \<Rightarrow> (Inr v, w))"

text \<open>Reading an attribute of the wrapper: the instance dictionary first; then the
  cached property of that name, whose value is stored in the instance dictionary (not
  through \<^verbatim>\<open>__setattr__\<close>); then \<^verbatim>\<open>__getattr__\<close>. Python also calls \<^verbatim>\<open>__getattr__\<close>
  when the body of the property raises \<^verbatim>\<open>AttributeError\<close>: the read then gives the
  Django setting of that name and stores nothing under it.\<close>

definition wrapped_getattr ::
  "(string \<Rightarrow> cached_prop option) \<Rightarrow> string \<Rightarrow> wrapped \<Rightarrow> (error + pyval) \<times> wrapped" where
  "wrapped_getattr props item w =
     (case inst_dict w item of
        Some v \<Rightarrow> (Inr v, w)
      | None \<Rightarrow>
         (case props item of
            Some p \<Rightarrow>
              (case compute_prop p w of
                 (Inr v, w') \<Rightarrow> (Inr v, w'\<lparr>inst_dict := (inst_dict w')(item \<mapsto> v)\<rparr>)
               | (Inl err, w') \<Rightarrow>
                   if err = AttributeError then django_getattr item w' else (Inl err, w'))
          | None \<Rightarrow> django_getattr item w))"

text \<open>A use of the wrapper is a read or an assignment; a program is a list of them,
  and an exception in one of them does not end the program (the caller may catch it).\<close>

datatype access = Get string | Set string pyval

definition step :: "(string \<Rightarrow> cached_prop option) \<Rightarrow> access \<Rightarrow> wrapped \<Rightarrow> wrapped" where
  "step props a w =
     (case a of
        Get item \<Rightarrow> snd (wrapped_getattr props item w)
      | Set key v \<Rightarrow> snd (wrapped_setattr key v w))"

definition run :: "(string \<Rightarrow> cached_prop option) \<Rightarrow> access list \<Rightarrow> wrapped \<Rightarrow> wrapped" where
  "run props prog w = fold (step props) prog w"

section \<open>Example data\<close>

text \<open>A project with one application of its own, \<^verbatim>\<open>shop\<close>, holding a MASTER model, a
  model with no scope of its own and a SHARED model, and the installed application
  \<^verbatim>\<open>auth\<close>. Tenant \<^verbatim>\<open>acme\<close> has a database of its own; tenant \<^verbatim>\<open>beta\<close> a schema.\<close>

definition acme :: BaseTenant where
  "acme = \<lparr>tenant_id = ''acme'', isolation_type = DATABASE, config = []\<rparr>"

definition beta :: BaseTenant where
  "beta = \<lparr>tenant_id = ''beta'', isolation_type = SCHEMA, config = []\<rparr>"

definition plan_model :: Model where
  "plan_model =
     \<lparr>app_label = ''shop'', model_name = ''plan'', model_tenant_scope = Some (Scope MASTER)\<rparr>"

definition order_model :: Model where
  "order_model = \<lparr>app_label = ''shop'', model_name = ''order'', model_tenant_scope = None\<rparr>"

definition country_model :: Model where
  "country_model =
     \<lparr>app_label = ''shop'', model_name = ''country'', model_tenant_scope = Some (Scope SHARED)\<rparr>"

definition user_model :: Model where
  "user_model =
     \<lparr>app_label = ''auth'', model_name = ''user'', model_tenant_scope = Some (Scope MASTER)\<rparr>"

definition example_env :: env where
  "example_env =
     \<lparr>CUSTOM_APPS = Some [''shop''],
      BASE_DIR = ''/srv'',
      MASTER_DB_ALIAS = ''default'',
      DEFAULT_SCHEMA_NAME = ''public'',
      app_configs =
        [\<lparr>label = ''shop'', name = ''shop'', path = ''/srv/shop'', app_tenant_scope = None\<rparr>,
         \<lparr>label = ''auth'', name = ''django.contrib.auth'', path = ''/lib/auth'',
           app_tenant_scope = None\<rparr>],
      models = [plan_model, order_model, country_model, user_model],
      connections =
        [(''default'', \<lparr>OPTIONS = []\<rparr>),
         (''acme_db'', \<lparr>OPTIONS = [(''options'', ''-c search_path=acme'')]\<rparr>),
         (''beta'', \<lparr>OPTIONS = [(''options'', ''-c search_path=beta,public'')]\<rparr>)]\<rparr>"

text \<open>A master database with a host and a port, a tenant that overrides the host, and
  a tenant whose host is the empty string.\<close>

definition master_settings :: db_settings where
  "master_settings =
     \<lparr>DATABASES = [(''default'', [(''HOST'', PStr ''b''), (''PORT'', PInt 5432)])],
      MASTER_ALIAS = ''default'',
      TIME_ZONE = ''UTC''\<rparr>"

definition host_tenant :: BaseTenant where
  "host_tenant =
     \<lparr>tenant_id = ''t1'', isolation_type = DATABASE,
      config = [(''db_config'', PDict [(''HOST'', PStr ''a'')])]\<rparr>"

definition empty_host_tenant :: BaseTenant where
  "empty_host_tenant =
     \<lparr>tenant_id = ''t2'', isolation_type = DATABASE,
      config = [(''db_config'', PDict [(''HOST'', PStr [])])]\<rparr>"

text \<open>The configuration resolved for the first of them.\<close>

definition host_resolved :: pydict where
  "host_resolved =
     [(''ENGINE'', PStr ''django_omnitenant.backends.postgresql''),
      (''NAME'', PNone), (''USER'', PNone), (''PASSWORD'', PNone),
      (''HOST'', PStr ''a''), (''PORT'', PInt 5432),
      (''OPTIONS'', PDict []), (''TIME_ZONE'', PStr ''UTC''),
      (''ATOMIC_REQUESTS'', PBool False), (''AUTOCOMMIT'', PBool True),
      (''CONN_MAX_AGE'', PInt 0), (''CONN_HEALTH_CHECKS'', PBool False),
      (''TEST'', PDict [(''NAME'', PNone)])]"

text \<open>A database name that holds a double quote and a second statement.\<close>

definition injected_name :: string where
  "injected_name = ''a'' @ [dquote] @ ''; DROP DATABASE '' @ [dquote] @ ''b''"





text \<open>Three cached properties of the wrapper, a wrapper that has cached nothing yet,
  the same wrapper after \<^verbatim>\<open>MASTER_DB_ALIAS\<close> was read, and a program that uses it.\<close>

definition example_props :: "string \<Rightarrow> cached_prop option" where
  "example_props =
     [''OMNITENANT_CONFIG'' \<mapsto> FromDjango ''OMNITENANT_CONFIG'' (PDict []),
      ''MASTER_DB_ALIAS'' \<mapsto> FromConfig ''MASTER_DB_ALIAS'' (PStr ''default''),
      ''TENANT_MODEL'' \<mapsto> RequiredFromConfig ''TENANT_MODEL'']"

definition fresh_wrapper :: wrapped where
  "fresh_wrapper =
     \<lparr>inst_dict = Map.empty,
      django_settings = [''OMNITENANT_CONFIG'' \<mapsto> PDict [(''MASTER_DB_ALIAS'', PStr ''master'')],
                         ''DEBUG'' \<mapsto> PBool True]\<rparr>"

definition cached_wrapper :: wrapped where
  "cached_wrapper =
     fresh_wrapper\<lparr>inst_dict :=
       [''OMNITENANT_CONFIG'' \<mapsto> PDict [(''MASTER_DB_ALIAS'', PStr ''master'')],
        ''MASTER_DB_ALIAS'' \<mapsto> PStr ''master'']\<rparr>"

definition example_program :: "access list" where
  "example_program =
     [Set ''DEBUG'' (PBool False), Get ''TENANT_MODEL'', Set ''MASTER_DB_ALIAS'' (PStr ''other''),
      Get ''MASTER_DB_ALIAS'']"

text \<open>A tenant with a schema of its own named \<^verbatim>\<open>republic\<close>, and the project while
  the master connection has that schema selected.\<close>

definition republic :: BaseTenant where
  "republic = \<lparr>tenant_id = ''republic'', isolation_type = SCHEMA, config = []\<rparr>"

definition republic_options :: settings_dict where
  "republic_options = \<lparr>OPTIONS = [(''options'', ''-c search_path=republic'')]\<rparr>"

definition republic_env :: env where
  "republic_env = example_env\<lparr>connections := [(''default'', republic_options)]\<rparr>"



text \<open>A wrapper behind which \<^verbatim>\<open>OMNITENANT_CONFIG\<close> is a string, and the Django settings
  have an attribute named like a cached property.\<close>

definition odd_wrapper :: wrapped where
  "odd_wrapper =
     \<lparr>inst_dict = Map.empty,
      django_settings = [''OMNITENANT_CONFIG'' \<mapsto> PStr ''x'',
                         ''MASTER_DB_ALIAS'' \<mapsto> PStr ''top'']\<rparr>"

section \<open>Properties of the router\<close>

subsection \<open>The example project\<close>

lemma custom_apps_example: "get_custom_apps example_env = [''shop'']"
  by (simp add: get_custom_apps_def example_env_def)

lemma scope_plan: "get_scope example_env plan_model = Scope MASTER"
  by (simp add: get_scope_def custom_apps_example plan_model_def)

lemma scope_order: "get_scope example_env order_model = Scope TENANT"
  by (simp add: get_scope_def custom_apps_example order_model_def get_app_config_def
        example_env_def)

lemma scope_country: "get_scope example_env country_model = Scope SHARED"
  by (simp add: get_scope_def custom_apps_example country_model_def)

lemma identify_plan:
  "identify_scope example_env ''shop'' (Some ''plan'') = Inr (Some (Scope MASTER))"
  by (simp add: identify_scope_def get_model_def example_env_def plan_model_def
        get_scope_def get_custom_apps_def)

lemma identify_order:
  "identify_scope example_env ''shop'' (Some ''order'') = Inr (Some (Scope TENANT))"
  by (simp add: identify_scope_def get_model_def example_env_def plan_model_def order_model_def
        get_scope_def get_custom_apps_def get_app_config_def)

lemma identify_country:
  "identify_scope example_env ''shop'' (Some ''country'') = Inr (Some (Scope SHARED))"
  by (simp add: identify_scope_def get_model_def example_env_def plan_model_def order_model_def
        country_model_def get_scope_def get_custom_apps_def get_app_config_def)

lemma conn_acme:
  "map_of (connections example_env) ''acme_db''
     = Some \<lparr>OPTIONS = [(''options'', ''-c search_path=acme'')]\<rparr>"
  by (simp add: example_env_def)

lemma public_acme:
  "\<not> is_public_schema example_env \<lparr>OPTIONS = [(''options'', ''-c search_path=acme'')]\<rparr>"
  by (simp add: is_public_schema_def search_path_def example_env_def startswith_def)

lemma master_example: "MASTER_DB_ALIAS example_env = ''default''"
  by (simp add: example_env_def)

lemma iso_none: "\<not> is_schema_iso []"
  by (simp add: is_schema_iso_def get_tenant_def)

subsection \<open>Read and write routing\<close>

text \<open>
  Claim C1. For every model, \<^verbatim>\<open>db_for_write\<close> is \<^verbatim>\<open>db_for_read\<close>, and \<^verbatim>\<open>db_for_read\<close>
  returns the master alias when the scope of the model is MASTER, whatever tenant is
  active; the alias of the active tenant when the scope is TENANT, and \<^verbatim>\<open>None\<close> when
  no tenant is active; and for the scope SHARED the alias of the active tenant when
  there is one, else the master alias. The aliases on the context stack are database
  aliases, which are not empty: \<^verbatim>\<open>get_alias_and_config\<close> computes them as
  \<^verbatim>\<open>ALIAS or NAME or MASTER_DB_ALIAS\<close> (lemma \<open>alias_truthy\<close> below).
\<close>

theorem db_for_read_routing:
  assumes "ctx \<noteq> [] \<longrightarrow> snd (last ctx) \<noteq> []"
  shows "db_for_write e ctx m = db_for_read e ctx m
     \<and> (get_scope e m = Scope MASTER \<longrightarrow> db_for_read e ctx m = Some (MASTER_DB_ALIAS e))
     \<and> (get_scope e m = Scope TENANT \<longrightarrow>
          db_for_read e ctx m = (if ctx = [] then None else Some (snd (last ctx))))
     \<and> (get_scope e m = Scope SHARED \<longrightarrow>
          db_for_read e ctx m
            = (if ctx = [] then Some (MASTER_DB_ALIAS e) else Some (snd (last ctx))))"
  using assms by (simp add: db_for_write_def db_for_read_def get_db_alias_def)

theorem db_for_read_routing_witness:
  "db_for_read example_env [(acme, ''acme_db'')] plan_model = Some ''default''
   \<and> db_for_read example_env [(acme, ''acme_db'')] order_model = Some ''acme_db''
   \<and> db_for_read example_env [] order_model = None
   \<and> db_for_read example_env [(acme, ''acme_db'')] country_model = Some ''acme_db''
   \<and> db_for_read example_env [] country_model = Some ''default''
   \<and> db_for_write example_env [(acme, ''acme_db'')] country_model = Some ''acme_db''"
proof -
  have active: "[(acme, ''acme_db'')] \<noteq> [] \<longrightarrow> snd (last [(acme, ''acme_db'')]) \<noteq> []"
    by simp
  have inactive: "([] :: TenantContext) \<noteq> [] \<longrightarrow> snd (last ([] :: TenantContext)) \<noteq> []"
    by simp
  show ?thesis
    using db_for_read_routing [OF active, of example_env plan_model]
      db_for_read_routing [OF active, of example_env order_model]
      db_for_read_routing [OF inactive, of example_env order_model]
      db_for_read_routing [OF active, of example_env country_model]
      db_for_read_routing [OF inactive, of example_env country_model]
    by (simp add: scope_plan scope_order scope_country master_example)
qed

text \<open>
  Claim C9. A model whose application label is not among the custom applications has
  the scope TENANT: \<^verbatim>\<open>db_for_read\<close> returns the alias of the active tenant, or
  \<^verbatim>\<open>None\<close> when no tenant is active, and never falls back to the master alias; and
  \<^verbatim>\<open>allow_migrate\<close> for that application label returns \<^verbatim>\<open>True\<close> for every
  destination, model name and context.
\<close>

theorem external_app_tenant_scope:
  assumes "app_label m \<notin> set (get_custom_apps e)"
  shows "get_scope e m = Scope TENANT
     \<and> db_for_read e ctx m = (if ctx = [] then None else Some (snd (last ctx)))
     \<and> allow_migrate e ctx db (app_label m) mn = Inr (Some True)"
  using assms by (simp add: get_scope_def db_for_read_def get_db_alias_def allow_migrate_def)

theorem external_app_tenant_scope_witness:
  "get_scope example_env user_model = Scope TENANT
   \<and> db_for_read example_env [] user_model = None
   \<and> db_for_read example_env [(acme, ''acme_db'')] user_model = Some ''acme_db''
   \<and> allow_migrate example_env [] ''acme_db'' ''auth'' (Some ''user'') = Inr (Some True)"
proof -
  have ext: "app_label user_model \<notin> set (get_custom_apps example_env)"
    by (simp add: custom_apps_example user_model_def)
  have lbl: "app_label user_model = ''auth''"
    by (simp add: user_model_def)
  show ?thesis
    using external_app_tenant_scope [OF ext, of "[]" "''acme_db''" "Some ''user''"]
      external_app_tenant_scope [OF ext, of "[(acme, ''acme_db'')]" "''acme_db''" "Some ''user''"]
    by (simp add: lbl)
qed

subsection \<open>The migration matrix\<close>

text \<open>What the code returns for a MASTER entity and for a TENANT entity of a custom
  application at a registered destination, in terms of its own flag
  \<open>is_public_schema\<close>, the substring test on the options of the connection.\<close>

lemma allow_migrate_master_scope:
  assumes "al \<in> set (get_custom_apps e)"
    and "identify_scope e al mn = Inr (Some (Scope MASTER))"
    and "map_of (connections e) db = Some sd"
  shows "allow_migrate e ctx db al mn
           = Inr (Some (db = MASTER_DB_ALIAS e \<and> is_public_schema e sd))"
  using assms by (simp add: allow_migrate_def routing_matrix_def)

lemma allow_migrate_tenant_scope:
  assumes "al \<in> set (get_custom_apps e)"
    and "identify_scope e al mn = Inr (Some (Scope TENANT))"
    and "map_of (connections e) db = Some sd"
  shows "allow_migrate e ctx db al mn
           = Inr (Some (if is_schema_iso ctx
                        then db = MASTER_DB_ALIAS e \<and> \<not> is_public_schema e sd
                        else db \<noteq> MASTER_DB_ALIAS e \<and> is_public_schema e sd))"
  using assms by (simp add: allow_migrate_def routing_matrix_def)

text \<open>The flag is right when the options set no search path, and when the search path
  is the default schema alone.\<close>

lemma flag_without_search_path:
  "is_public_schema e \<lparr>OPTIONS = []\<rparr> \<and> default_schema_active e \<lparr>OPTIONS = []\<rparr>"
  by (simp add: is_public_schema_def default_schema_active_def selected_schema_def
        search_path_def)

lemma flag_default_schema:
  "is_public_schema example_env \<lparr>OPTIONS = [(''options'', ''-c search_path=public'')]\<rparr>
   \<and> default_schema_active example_env
        \<lparr>OPTIONS = [(''options'', ''-c search_path=public'')]\<rparr>"
  by (simp add: is_public_schema_def default_schema_active_def selected_schema_def
        search_path_def example_env_def startswith_def)

lemma flag_other_schema:
  "\<not> is_public_schema example_env \<lparr>OPTIONS = [(''options'', ''-c search_path=acme'')]\<rparr>
   \<and> \<not> default_schema_active example_env
          \<lparr>OPTIONS = [(''options'', ''-c search_path=acme'')]\<rparr>"
  by (simp add: is_public_schema_def default_schema_active_def selected_schema_def
        search_path_def example_env_def startswith_def)

text \<open>The project with the schema \<^verbatim>\<open>republic\<close> selected on the master connection: the
  schema that is active is \<^verbatim>\<open>republic\<close>, not the default schema, and the flag of the
  router is set, because \<^verbatim>\<open>public\<close> occurs in \<^verbatim>\<open>republic\<close>.\<close>

lemma custom_apps_republic: "get_custom_apps republic_env = [''shop'']"
  by (simp add: get_custom_apps_def republic_env_def example_env_def)

lemma identify_republic_env:
  "identify_scope republic_env al mn = identify_scope example_env al mn"
proof -
  have configs: "get_app_config republic_env l = get_app_config example_env l" for l
    by (simp add: get_app_config_def republic_env_def)
  have models: "get_model republic_env a n = get_model example_env a n" for a n
    by (simp add: get_model_def republic_env_def)
  have scopes: "get_scope republic_env m = get_scope example_env m" for m
    by (simp add: get_scope_def custom_apps_example custom_apps_republic configs
          split: option.split scope_attr.split)
  show ?thesis
    by (simp add: identify_scope_def models scopes configs split: sum.split)
qed

lemma conn_republic: "map_of (connections republic_env) ''default'' = Some republic_options"
  by (simp add: republic_env_def)

lemma master_republic: "MASTER_DB_ALIAS republic_env = ''default''"
  by (simp add: republic_env_def example_env_def)

lemma republic_selected: "selected_schema republic_options = Some ''republic''"
  by (simp add: selected_schema_def search_path_def republic_options_def startswith_def)

lemma republic_not_default: "\<not> default_schema_active republic_env republic_options"
  by (simp add: default_schema_active_def republic_selected)
    (simp add: republic_env_def example_env_def)

lemma republic_flag: "is_public_schema republic_env republic_options"
  by (simp add: is_public_schema_def search_path_def republic_options_def republic_env_def
        example_env_def startswith_def)

lemma iso_republic: "is_schema_iso [(republic, ''default'')]"
  by (simp add: is_schema_iso_def get_tenant_def republic_def)

text \<open>
  Claim C2. The claim asks that a MASTER entity of a custom application be allowed
  exactly at the master alias with the default schema active. The router decides
  "default schema active" by testing whether \<^verbatim>\<open>DEFAULT_SCHEMA_NAME\<close> occurs anywhere
  in the options of the connection. On the master alias with
  \<^verbatim>\<open>-c search_path=republic\<close> the active schema is \<^verbatim>\<open>republic\<close>, not the default
  schema, and the code allows the MASTER entity there.
\<close>

theorem master_scope_allowed_in_tenant_schema:
  "identify_scope republic_env ''shop'' (Some ''plan'') = Inr (Some (Scope MASTER))
   \<and> map_of (connections republic_env) ''default'' = Some republic_options
   \<and> selected_schema republic_options = Some ''republic''
   \<and> \<not> default_schema_active republic_env republic_options
   \<and> allow_migrate republic_env [(republic, ''default'')] ''default'' ''shop'' (Some ''plan'')
       = Inr (Some True)"
proof -
  have custom: "''shop'' \<in> set (get_custom_apps republic_env)"
    by (simp add: custom_apps_republic)
  have plan: "identify_scope republic_env ''shop'' (Some ''plan'') = Inr (Some (Scope MASTER))"
    by (simp add: identify_republic_env identify_plan)
  have "allow_migrate republic_env [(republic, ''default'')] ''default'' ''shop'' (Some ''plan'')
          = Inr (Some True)"
    using allow_migrate_master_scope [OF custom plan conn_republic]
    by (simp add: master_republic republic_flag)
  then show ?thesis
    by (simp add: plan conn_republic republic_selected republic_not_default)
qed

text \<open>
  Claim C3. The claim asks that a TENANT entity be allowed at the master alias exactly
  when the active tenant uses schema isolation and a schema other than the default is
  active. With the tenant \<^verbatim>\<open>republic\<close>, which uses schema isolation, active and its
  schema selected on the master alias (\<^verbatim>\<open>-c search_path=republic\<close>), the code refuses
  the TENANT entity: the same substring test as in C2 takes \<^verbatim>\<open>republic\<close> for the
  default schema.
\<close>

theorem tenant_scope_refused_in_tenant_schema:
  "identify_scope republic_env ''shop'' (Some ''order'') = Inr (Some (Scope TENANT))
   \<and> map_of (connections republic_env) ''default'' = Some republic_options
   \<and> is_schema_iso [(republic, ''default'')]
   \<and> selected_schema republic_options = Some ''republic''
   \<and> \<not> default_schema_active republic_env republic_options
   \<and> allow_migrate republic_env [(republic, ''default'')] ''default'' ''shop'' (Some ''order'')
       = Inr (Some False)"
proof -
  have custom: "''shop'' \<in> set (get_custom_apps republic_env)"
    by (simp add: custom_apps_republic)
  have order: "identify_scope republic_env ''shop'' (Some ''order'') = Inr (Some (Scope TENANT))"
    by (simp add: identify_republic_env identify_order)
  have "allow_migrate republic_env [(republic, ''default'')] ''default'' ''shop'' (Some ''order'')
          = Inr (Some False)"
    using allow_migrate_tenant_scope [OF custom order conn_republic]
    by (simp add: master_republic republic_flag iso_republic)
  then show ?thesis
    by (simp add: order conn_republic republic_selected republic_not_default iso_republic)
qed

text \<open>
  Claim C4. The claim asks that for a SHARED entity \<^verbatim>\<open>allow_migrate\<close> be the
  disjunction of the MASTER rule and the TENANT rule at the same destination, schema
  and context. The code tests \<^verbatim>\<open>not is_master_db\<close> alone where the TENANT rule tests
  \<^verbatim>\<open>not is_master_db and is_public_schema\<close>: at the database \<^verbatim>\<open>acme_db\<close>, which is
  not the master and has the schema \<^verbatim>\<open>acme\<close> selected, with no tenant active, the
  SHARED model is allowed although neither the MASTER model nor the TENANT model is.
\<close>

theorem allow_migrate_shared_not_disjunction:
  "allow_migrate example_env [] ''acme_db'' ''shop'' (Some ''country'') = Inr (Some True)
   \<and> allow_migrate example_env [] ''acme_db'' ''shop'' (Some ''plan'') = Inr (Some False)
   \<and> allow_migrate example_env [] ''acme_db'' ''shop'' (Some ''order'') = Inr (Some False)"
  by (simp add: allow_migrate_def custom_apps_example identify_country identify_plan
        identify_order conn_acme routing_matrix_def master_example public_acme iso_none Let_def)

text \<open>What the code returns for a SHARED entity, at every registered destination.\<close>

lemma allow_migrate_shared_scope:
  assumes "al \<in> set (get_custom_apps e)"
    and "identify_scope e al mn = Inr (Some (Scope SHARED))"
    and "map_of (connections e) db = Some sd"
  shows "allow_migrate e ctx db al mn
           = Inr (Some ((db = MASTER_DB_ALIAS e \<and> is_public_schema e sd)
                        \<or> (if is_schema_iso ctx
                            then db = MASTER_DB_ALIAS e \<and> \<not> is_public_schema e sd
                            else db \<noteq> MASTER_DB_ALIAS e)))"
  using assms by (simp add: allow_migrate_def routing_matrix_def Let_def)

section \<open>Properties of the schema names\<close>

lemma schema_name_example_1:
  "convert_to_valid_pgsql_schema_name ''My Tenant Inc.'' = ''my_tenant_inc_''"
  by code_simp

lemma schema_name_example_2: "convert_to_valid_pgsql_schema_name ''pg_custom'' = ''x_custom''"
  by code_simp

lemma schema_name_empty: "convert_to_valid_pgsql_schema_name [] = ''default_schema''"
  by code_simp

lemma schema_name_length: "length (convert_to_valid_pgsql_schema_name s) \<le> 63"
  by (simp add: convert_to_valid_pgsql_schema_name_def Let_def) arith

lemma schema_name_no_pg: "\<not> startswith (convert_to_valid_pgsql_schema_name s) ''pg_''"
  by (auto simp add: convert_to_valid_pgsql_schema_name_def Let_def startswith_def)

lemma schema_name_nonempty: "convert_to_valid_pgsql_schema_name s \<noteq> []"
  by (auto simp add: convert_to_valid_pgsql_schema_name_def Let_def startswith_def)

text \<open>For every name the result is not empty, has at most 63 characters and does not
  start with \<^verbatim>\<open>pg_\<close>.\<close>

theorem schema_name_bounds:
  "convert_to_valid_pgsql_schema_name s \<noteq> []
   \<and> length (convert_to_valid_pgsql_schema_name s) \<le> 63
   \<and> \<not> startswith (convert_to_valid_pgsql_schema_name s) ''pg_''"
  using schema_name_nonempty schema_name_length schema_name_no_pg by blast

text \<open>
  Claim C5. The claim asks that the name made of three exclamation marks normalise to
  \<^verbatim>\<open>default_schema\<close>, as the docstring of the function says of a name made of invalid
  characters only. The substitution turns every invalid character into an underscore,
  so the name is not empty when the emptiness test is reached: the code returns three
  underscores. The rest of the claim holds (the two lemmas on the length and the prefix
  above, and the two examples).
\<close>

theorem schema_name_all_invalid:
  "convert_to_valid_pgsql_schema_name ''!!!'' = ''___''
   \<and> convert_to_valid_pgsql_schema_name ''!!!'' \<noteq> ''default_schema''"
  by code_simp

section \<open>Properties of the resolved configuration\<close>

lemma map_of_replace_same:
  "k \<in> set (map fst d)
   \<Longrightarrow> map_of (map (\<lambda>(k', v'). if k' = k then (k', v) else (k', v')) d) k = Some v"
  by (induction d) auto

lemma map_of_replace_other:
  "k' \<noteq> k
   \<Longrightarrow> map_of (map (\<lambda>(k'', v'). if k'' = k then (k'', v) else (k'', v')) d) k' = map_of d k'"
  by (induction d) auto

lemma map_of_snoc_same: "k \<notin> set (map fst d) \<Longrightarrow> map_of (d @ [(k, v)]) k = Some v"
  by (induction d) auto

lemma map_of_snoc_other: "k' \<noteq> k \<Longrightarrow> map_of (d @ [(k, v)]) k' = map_of d k'"
  by (induction d) auto

lemma dict_get_dict_set_same: "dict_get (dict_set d k v) k = v"
  by (simp add: dict_get_def dict_set_def map_of_replace_same map_of_snoc_same
        del: map_of_append)

lemma dict_get_dict_set_other: "k' \<noteq> k \<Longrightarrow> dict_get (dict_set d k v) k' = dict_get d k'"
  by (simp add: dict_get_def dict_set_def map_of_replace_other map_of_snoc_other
        del: map_of_append)

lemma dict_get_default_None: "dict_get_default d k PNone = dict_get d k"
  by (simp add: dict_get_def dict_get_default_def)

lemma resolved_or_fields:
  "\<forall>k \<in> set or_fields.
     dict_get (resolved_config st d) k
       = (if truthy (ci_get d k) then ci_get d k
          else dict_get_default (base_config st) k (hard_default st k))"
  by (simp add: or_fields_def resolved_config_def dict_get_def [of "_ # _"] py_or_def
        hard_default_def dict_get_default_None)

lemma resolved_in_fields:
  "\<forall>k \<in> set in_fields.
     dict_get (resolved_config st d) k
       = (if ci_contains d k then ci_get d k
          else dict_get_default (base_config st) k (hard_default st k))"
  by (simp add: in_fields_def resolved_config_def dict_get_def [of "_ # _"]
        hard_default_def)

lemma resolved_TEST:
  "dict_get (resolved_config st d) ''TEST''
     = (if ci_contains d ''TEST'' then ci_get d ''TEST''
        else dict_get_default (base_config st) ''TEST'' (PDict []))"
  by (simp add: resolved_config_def dict_get_def [of "_ # _"])

lemma hard_default_TEST: "hard_default st ''TEST'' = PDict []"
  by (simp add: hard_default_def)

lemma config_cases:
  assumes "get_alias_and_config st tenant = Inr (db_alias, cfg)"
    and "tenant_db_config tenant = Inr d"
  obtains t where "dict_get (resolved_config st d) ''TEST'' = PDict t"
    and "cfg = (if truthy (dict_get t ''NAME'') then resolved_config st d
                else dict_set (resolved_config st d) ''TEST''
                       (PDict (dict_set t ''NAME'' (dict_get (resolved_config st d) ''NAME''))))"
  using assms
  by (auto simp add: get_alias_and_config_def Let_def split: pyval.splits if_splits)

lemma untouched_fields:
  assumes "get_alias_and_config st tenant = Inr (db_alias, cfg)"
    and "tenant_db_config tenant = Inr d"
    and "k \<noteq> ''TEST''"
  shows "dict_get cfg k = dict_get (resolved_config st d) k"
  using assms(1,2)
proof (rule config_cases)
  fix t
  assume "cfg = (if truthy (dict_get t ''NAME'') then resolved_config st d
                else dict_set (resolved_config st d) ''TEST''
                       (PDict (dict_set t ''NAME'' (dict_get (resolved_config st d) ''NAME''))))"
  then show ?thesis
    using assms(3) by (simp add: dict_get_dict_set_other)
qed

text \<open>
  Claim C6, as amended. The configuration is resolved field by field. For ENGINE, NAME,
  USER, PASSWORD, HOST, PORT, OPTIONS and TIME_ZONE the value of the tenant is used
  when it is truthy (a value that is missing, \<^verbatim>\<open>None\<close>, empty or zero counts as absent);
  for ATOMIC_REQUESTS, AUTOCOMMIT, CONN_MAX_AGE and CONN_HEALTH_CHECKS it is used
  whenever the tenant has the key. Otherwise each field falls back on its own to the
  value of the master entry, and when the master entry lacks the key to the default of
  the field (\<^verbatim>\<open>None\<close> for NAME, USER, PASSWORD, HOST and PORT). TEST is the
  dictionary of the tenant when it has the key, else that of the master, else empty,
  and receives the resolved NAME when it has no truthy NAME. The witness is the
  example of the claim: the override HOST = a over the master HOST = b, PORT = 5432
  resolves to HOST = a and PORT = 5432.
\<close>

theorem resolved_config_fields:
  assumes ok: "get_alias_and_config st tenant = Inr (db_alias, cfg)"
    and dbc: "tenant_db_config tenant = Inr d"
  shows "(\<forall>k \<in> set or_fields.
            dict_get cfg k
              = (if truthy (ci_get d k) then ci_get d k
                 else dict_get_default (base_config st) k (hard_default st k)))
     \<and> (\<forall>k \<in> set in_fields.
            dict_get cfg k
              = (if ci_contains d k then ci_get d k
                 else dict_get_default (base_config st) k (hard_default st k)))
     \<and> (\<exists>t. (if ci_contains d ''TEST'' then ci_get d ''TEST''
              else dict_get_default (base_config st) ''TEST'' (hard_default st ''TEST'')) = PDict t
            \<and> dict_get cfg ''TEST''
                = PDict (if truthy (dict_get t ''NAME'') then t
                         else dict_set t ''NAME'' (dict_get cfg ''NAME'')))"
proof (intro conjI ballI)
  fix k assume k: "k \<in> set or_fields"
  then have "k \<noteq> ''TEST''" by (auto simp add: or_fields_def)
  then have "dict_get cfg k = dict_get (resolved_config st d) k"
    by (rule untouched_fields [OF ok dbc])
  then show "dict_get cfg k
      = (if truthy (ci_get d k) then ci_get d k
         else dict_get_default (base_config st) k (hard_default st k))"
    using resolved_or_fields k by simp
next
  fix k assume k: "k \<in> set in_fields"
  then have "k \<noteq> ''TEST''" by (auto simp add: in_fields_def)
  then have "dict_get cfg k = dict_get (resolved_config st d) k"
    by (rule untouched_fields [OF ok dbc])
  then show "dict_get cfg k
      = (if ci_contains d k then ci_get d k
         else dict_get_default (base_config st) k (hard_default st k))"
    using resolved_in_fields k by simp
next
  have name: "dict_get cfg ''NAME'' = dict_get (resolved_config st d) ''NAME''"
    by (rule untouched_fields [OF ok dbc]) simp
  from ok dbc show "\<exists>t. (if ci_contains d ''TEST'' then ci_get d ''TEST''
              else dict_get_default (base_config st) ''TEST'' (hard_default st ''TEST'')) = PDict t
            \<and> dict_get cfg ''TEST''
                = PDict (if truthy (dict_get t ''NAME'') then t
                         else dict_set t ''NAME'' (dict_get cfg ''NAME''))"
  proof (rule config_cases)
    fix t
    assume t: "dict_get (resolved_config st d) ''TEST'' = PDict t"
      and cfg: "cfg = (if truthy (dict_get t ''NAME'') then resolved_config st d
                else dict_set (resolved_config st d) ''TEST''
                       (PDict (dict_set t ''NAME'' (dict_get (resolved_config st d) ''NAME''))))"
    have "(if ci_contains d ''TEST'' then ci_get d ''TEST''
              else dict_get_default (base_config st) ''TEST'' (hard_default st ''TEST'')) = PDict t"
      using t by (simp only: resolved_TEST hard_default_TEST)
    moreover have "dict_get cfg ''TEST''
                = PDict (if truthy (dict_get t ''NAME'') then t
                         else dict_set t ''NAME'' (dict_get cfg ''NAME''))"
    proof -
      have "dict_get cfg ''TEST''
                = PDict (if truthy (dict_get t ''NAME'') then t
                         else dict_set t ''NAME'' (dict_get (resolved_config st d) ''NAME''))"
        using t by (cases "truthy (dict_get t ''NAME'')") (simp_all add: cfg dict_get_dict_set_same)
      then show ?thesis
        by (simp only: name)
    qed
    ultimately show ?thesis by blast
  qed
qed


lemma host_tenant_result:
  "get_alias_and_config master_settings host_tenant = Inr (PStr ''default'', host_resolved)"
  by code_simp

lemma host_tenant_db_config: "tenant_db_config host_tenant = Inr [(''HOST'', PStr ''a'')]"
  by (simp add: tenant_db_config_def host_tenant_def)

theorem resolved_config_fields_witness:
  "resolved_field master_settings host_tenant ''HOST'' = Inr (PStr ''a'')
   \<and> resolved_field master_settings host_tenant ''PORT'' = Inr (PInt 5432)"
proof -
  have host: "ci_get [(''HOST'', PStr ''a'')] ''HOST'' = PStr ''a''"
    by code_simp
  have port: "ci_get [(''HOST'', PStr ''a'')] ''PORT'' = PNone"
    by code_simp
  have base: "dict_get_default (base_config master_settings) ''PORT''
                (hard_default master_settings ''PORT'') = PInt 5432"
    by code_simp
  have fields: "''HOST'' \<in> set or_fields" "''PORT'' \<in> set or_fields"
    by (simp_all add: or_fields_def)
  from resolved_config_fields [OF host_tenant_result host_tenant_db_config]
  have "\<forall>k \<in> set or_fields.
          dict_get host_resolved k
            = (if truthy (ci_get [(''HOST'', PStr ''a'')] k) then ci_get [(''HOST'', PStr ''a'')] k
               else dict_get_default (base_config master_settings) k
                      (hard_default master_settings k))"
    by blast
  with fields have "dict_get host_resolved ''HOST'' = PStr ''a''"
    and "dict_get host_resolved ''PORT'' = PInt 5432"
    by (simp_all add: host port base)
  then show ?thesis
    by (simp add: resolved_field_def host_tenant_result)
qed

text \<open>
  Claim C6 as stated fails for a value the tenant provides that is not truthy: a
  tenant whose \<^verbatim>\<open>db_config\<close> has HOST = "" gets the host of the master.
\<close>

theorem tenant_empty_host_counterexample:
  "tenant_db_config empty_host_tenant = Inr [(''HOST'', PStr [])]
   \<and> ci_contains [(''HOST'', PStr [])] ''HOST''
   \<and> dict_get (base_config master_settings) ''HOST'' = PStr ''b''
   \<and> resolved_field master_settings empty_host_tenant ''HOST'' = Inr (PStr ''b'')"
  by code_simp

text \<open>The alias \<^verbatim>\<open>get_alias_and_config\<close> returns is truthy whenever the master alias is
  not empty.\<close>

lemma alias_truthy:
  assumes "MASTER_ALIAS st \<noteq> []"
    and "get_alias_and_config st tenant = Inr (db_alias, cfg)"
  shows "truthy db_alias"
  using assms
  by (auto simp add: get_alias_and_config_def Let_def py_or_def
        split: sum.splits pyval.splits if_splits)


section \<open>Properties of the create and drop statements\<close>

lemma scan_quoted_escaped:
  "scan_quoted (concat (map (\<lambda>c. if c = dquote then [dquote, dquote] else [c]) nm) @ [dquote])
     = Some (nm, [])"
proof (induction nm)
  case Nil
  show ?case by simp
next
  case (Cons c cs)
  let ?rest = "concat (map (\<lambda>c. if c = dquote then [dquote, dquote] else [c]) cs) @ [dquote]"
  obtain d ds where rest: "?rest = d # ds"
    by (cases ?rest) auto
  show ?case
  proof (cases "c = dquote")
    case True
    then show ?thesis using Cons.IH by simp
  next
    case False
    then show ?thesis using Cons.IH rest by simp
  qed
qed

text \<open>The create statement names the database it is given and nothing else, whatever
  the name holds.\<close>

lemma create_statement_names_only:
  "names_only ''CREATE DATABASE '' (create_database_statement db_name) db_name"
  by (simp add: names_only_def create_database_statement_def sql_Identifier_def
        read_quoted_identifier_def scan_quoted_escaped startswith_def)

lemma scan_quoted_plain:
  "dquote \<notin> set nm \<Longrightarrow> scan_quoted (nm @ [dquote]) = Some (nm, [])"
proof (induction nm)
  case Nil
  show ?case by simp
next
  case (Cons c cs)
  obtain d ds where rest: "cs @ [dquote] = d # ds"
    by (cases "cs @ [dquote]") auto
  with Cons show ?case by auto
qed

text \<open>The drop statement does so for a name without a double quote.\<close>

lemma drop_statement_plain_names:
  "dquote \<notin> set db_name
   \<Longrightarrow> names_only ''DROP DATABASE IF EXISTS '' (drop_database_statement db_name) db_name"
  by (simp add: names_only_def drop_database_statement_def
        read_quoted_identifier_def scan_quoted_plain startswith_def)

text \<open>
  Claim C7. The claim asks that both statements treat the name as an escaped
  identifier. \<^verbatim>\<open>_create_database\<close> does (\<^verbatim>\<open>sql.Identifier\<close>); \<^verbatim>\<open>_drop_database\<close>
  puts the name between double quotes in an f-string and escapes nothing. For the name
  \<^verbatim>\<open>a"; DROP DATABASE "b\<close> the statement it executes reads as the identifier \<^verbatim>\<open>a\<close>
  followed by a second statement that drops the database \<^verbatim>\<open>b\<close>.
\<close>

theorem drop_statement_injection:
  "drop_database_statement injected_name
     = ''DROP DATABASE IF EXISTS '' @ [dquote] @ ''a'' @ [dquote] @ ''; DROP DATABASE ''
       @ [dquote] @ ''b'' @ [dquote]
   \<and> read_quoted_identifier
        (drop (length ''DROP DATABASE IF EXISTS '') (drop_database_statement injected_name))
       = Some (''a'', ''; DROP DATABASE '' @ [dquote] @ ''b'' @ [dquote])
   \<and> \<not> names_only ''DROP DATABASE IF EXISTS '' (drop_database_statement injected_name)
          injected_name"
  by code_simp


section \<open>Properties of the batch migration\<close>














section \<open>Properties of the settings wrapper\<close>

lemma read_config_keeps:
  "inst_dict w k = Some c \<Longrightarrow> inst_dict (snd (read_OMNITENANT_CONFIG w)) k = Some c"
  by (auto simp add: read_OMNITENANT_CONFIG_def Let_def split: option.splits)

lemma compute_prop_keeps:
  "inst_dict w k = Some c \<Longrightarrow> inst_dict (snd (compute_prop p w)) k = Some c"
  by (cases p)
    (auto simp add: compute_prop_def read_OMNITENANT_CONFIG_def Let_def
       split: option.splits pyval.splits prod.splits)

lemma django_getattr_keeps: "snd (django_getattr item w) = w"
  by (simp add: django_getattr_def split: option.splits)

lemma getattr_keeps:
  "inst_dict w k = Some c \<Longrightarrow> inst_dict (snd (wrapped_getattr props item w)) k = Some c"
proof (cases "inst_dict w item")
  case (Some v)
  then show "inst_dict w k = Some c \<Longrightarrow> ?thesis"
    by (simp add: wrapped_getattr_def)
next
  case None
  assume k: "inst_dict w k = Some c"
  with None have neq: "k \<noteq> item" by auto
  show ?thesis
  proof (cases "props item")
    case no_prop: None
    with None k show ?thesis
      by (simp add: wrapped_getattr_def django_getattr_keeps)
  next
    case (Some p)
    obtain r w' where r: "compute_prop p w = (r, w')"
      by (cases "compute_prop p w")
    with compute_prop_keeps [OF k, of p] have "inst_dict w' k = Some c" by simp
    with None Some r neq show ?thesis
      by (cases r) (simp_all add: wrapped_getattr_def django_getattr_keeps)
  qed
qed

lemma setattr_keeps: "inst_dict (snd (wrapped_setattr key v w)) = inst_dict w"
  by (simp add: wrapped_setattr_def)

lemma step_keeps: "inst_dict w k = Some c \<Longrightarrow> inst_dict (step props a w) k = Some c"
  by (cases a) (simp_all add: step_def getattr_keeps setattr_keeps)

lemma run_keeps: "inst_dict w k = Some c \<Longrightarrow> inst_dict (run props prog w) k = Some c"
  unfolding run_def by (induction prog arbitrary: w) (simp_all add: step_keeps)

text \<open>A read of a cached property whose body returns a value stores that value under
  the name of the property.\<close>

lemma getattr_caches:
  assumes "props key = Some p" and "inst_dict w key = None"
    and "compute_prop p w = (Inr c, w')"
  shows "wrapped_getattr props key w = (Inr c, w'\<lparr>inst_dict := (inst_dict w')(key \<mapsto> c)\<rparr>)"
  using assms by (simp add: wrapped_getattr_def)

text \<open>A read of a cached property whose body raises \<^verbatim>\<open>AttributeError\<close> gives the Django
  setting of that name and stores nothing under it.\<close>

lemma getattr_falls_back:
  assumes "props key = Some p" and "inst_dict w key = None"
    and "compute_prop p w = (Inl AttributeError, w')"
  shows "wrapped_getattr props key w = django_getattr key w'"
  using assms by (simp add: wrapped_getattr_def)

text \<open>
  Claim C10. Once an attribute is in the instance dictionary, where a cached property
  is stored when it has been computed, the stored value stays as it is through every
  later read and assignment, and every later assignment to that name raises
  \<^verbatim>\<open>ValueError\<close> and changes nothing. A read of a cached property whose body
  returns a value puts it there. An assignment to a name that is not in the instance
  dictionary does not raise and sets the attribute of the Django settings object.
\<close>

theorem cached_attribute_is_immutable:
  "(inst_dict w key = Some c
      \<longrightarrow> inst_dict (run props prog w) key = Some c
          \<and> wrapped_setattr key v (run props prog w) = (Inl ValueError, run props prog w))
   \<and> (props key = Some p \<and> inst_dict w key = None \<and> compute_prop p w = (Inr c, w')
      \<longrightarrow> fst (wrapped_getattr props key w) = Inr c
          \<and> inst_dict (snd (wrapped_getattr props key w)) key = Some c)
   \<and> (inst_dict w key = None
      \<longrightarrow> wrapped_setattr key v w
            = (Inr (), w\<lparr>django_settings := (django_settings w)(key \<mapsto> v)\<rparr>))"
proof (intro conjI impI)
  assume "inst_dict w key = Some c"
  then show cached: "inst_dict (run props prog w) key = Some c"
    by (rule run_keeps)
  then show "wrapped_setattr key v (run props prog w) = (Inl ValueError, run props prog w)"
    by (auto simp add: wrapped_setattr_def)
next
  assume read: "props key = Some p \<and> inst_dict w key = None \<and> compute_prop p w = (Inr c, w')"
  then have "wrapped_getattr props key w
               = (Inr c, w'\<lparr>inst_dict := (inst_dict w')(key \<mapsto> c)\<rparr>)"
    using getattr_caches by blast
  then show "fst (wrapped_getattr props key w) = Inr c"
    and "inst_dict (snd (wrapped_getattr props key w)) key = Some c"
    by simp_all
next
  assume "inst_dict w key = None"
  then show "wrapped_setattr key v w
            = (Inr (), w\<lparr>django_settings := (django_settings w)(key \<mapsto> v)\<rparr>)"
    by (auto simp add: wrapped_setattr_def)
qed

lemma example_compute:
  "compute_prop (FromConfig ''MASTER_DB_ALIAS'' (PStr ''default'')) fresh_wrapper
     = (Inr (PStr ''master''),
        fresh_wrapper\<lparr>inst_dict :=
          [''OMNITENANT_CONFIG'' \<mapsto> PDict [(''MASTER_DB_ALIAS'', PStr ''master'')]]\<rparr>)"
  by (simp add: fresh_wrapper_def compute_prop_def read_OMNITENANT_CONFIG_def
        dict_get_default_def Let_def)

lemma example_getattr:
  "wrapped_getattr example_props ''MASTER_DB_ALIAS'' fresh_wrapper
     = (Inr (PStr ''master''), cached_wrapper)"
  by (simp add: wrapped_getattr_def example_props_def fresh_wrapper_def cached_wrapper_def
        compute_prop_def read_OMNITENANT_CONFIG_def dict_get_default_def Let_def)

theorem cached_attribute_is_immutable_witness:
  "wrapped_getattr example_props ''MASTER_DB_ALIAS'' fresh_wrapper
     = (Inr (PStr ''master''), cached_wrapper)
   \<and> inst_dict cached_wrapper ''MASTER_DB_ALIAS'' = Some (PStr ''master'')
   \<and> inst_dict (run example_props example_program cached_wrapper) ''MASTER_DB_ALIAS''
       = Some (PStr ''master'')
   \<and> wrapped_setattr ''MASTER_DB_ALIAS'' (PStr ''other'')
         (run example_props example_program cached_wrapper)
       = (Inl ValueError, run example_props example_program cached_wrapper)
   \<and> wrapped_setattr ''DEBUG'' (PBool False) fresh_wrapper
       = (Inr (), fresh_wrapper\<lparr>django_settings :=
                    (django_settings fresh_wrapper)(''DEBUG'' \<mapsto> PBool False)\<rparr>)"
proof -
  have is_cached_prop: "example_props ''MASTER_DB_ALIAS''
                = Some (FromConfig ''MASTER_DB_ALIAS'' (PStr ''default''))"
    by (simp add: example_props_def)
  have uncached: "inst_dict fresh_wrapper ''DEBUG'' = None"
    "inst_dict fresh_wrapper ''MASTER_DB_ALIAS'' = None"
    by (simp_all add: fresh_wrapper_def)
  have cached: "inst_dict cached_wrapper ''MASTER_DB_ALIAS'' = Some (PStr ''master'')"
    by (simp add: cached_wrapper_def)
  show ?thesis
    using cached_attribute_is_immutable
        [of cached_wrapper "''MASTER_DB_ALIAS''" "PStr ''master''" example_props example_program
          "PStr ''other''" "FromConfig ''MASTER_DB_ALIAS'' (PStr ''default'')"]
      cached_attribute_is_immutable
        [of fresh_wrapper "''MASTER_DB_ALIAS''" "PStr ''master''" example_props example_program
          "PStr ''other''" "FromConfig ''MASTER_DB_ALIAS'' (PStr ''default'')"
          "fresh_wrapper\<lparr>inst_dict :=
             [''OMNITENANT_CONFIG'' \<mapsto> PDict [(''MASTER_DB_ALIAS'', PStr ''master'')]]\<rparr>"]
      cached_attribute_is_immutable
        [of fresh_wrapper "''DEBUG''" "PStr ''master''" example_props example_program
          "PBool False"]
    by (simp add: is_cached_prop uncached cached example_compute example_getattr)
qed

text \<open>A configuration that is not a dictionary: the body of the property raises
  \<^verbatim>\<open>AttributeError\<close>, the read gives the Django setting of the same name, nothing is
  stored under that name, and a later assignment to it does not raise.\<close>

lemma fallback_example:
  "fst (wrapped_getattr example_props ''MASTER_DB_ALIAS'' odd_wrapper) = Inr (PStr ''top'')
   \<and> inst_dict (snd (wrapped_getattr example_props ''MASTER_DB_ALIAS'' odd_wrapper))
        ''MASTER_DB_ALIAS'' = None
   \<and> fst (wrapped_setattr ''MASTER_DB_ALIAS'' (PStr ''other'')
           (snd (wrapped_getattr example_props ''MASTER_DB_ALIAS'' odd_wrapper))) = Inr ()"
  by (simp add: wrapped_getattr_def example_props_def odd_wrapper_def compute_prop_def
        read_OMNITENANT_CONFIG_def django_getattr_def wrapped_setattr_def Let_def)

end
